theory Spec2Isabelle
  imports Main
begin

section \<open>Variables and buffer exchange\<close>

text \<open>
  Device buffers are named by handles; a Variable is a graph node that refers to one
  buffer. Variables are heap objects reached through pointers, so they live in a store
  indexed by their address: two pointers may name the same Variable.
\<close>

type_synonym handle = nat
type_synonym var_ptr = nat

record variable =
  var_name :: string
  buffer :: handle

type_synonym var_store = "var_ptr \<Rightarrow> variable"

text \<open>
  Modelled from the spec: \<^verbatim>\<open>Variable::swap_tensor\<close> (node.h and node.cpp are not among the
  sources). The spec: "Two Variables may be swapped: their buffer references are
  exchanged, not their data". Both references are read before either is written.
\<close>

definition swap_tensor :: "var_ptr \<Rightarrow> var_ptr \<Rightarrow> var_store \<Rightarrow> var_store" where
  "swap_tensor a b vs =
     (let ba = buffer (vs a); bb = buffer (vs b)
      in (vs(a := (vs a)\<lparr>buffer := bb\<rparr>))(b := (vs b)\<lparr>buffer := ba\<rparr>))"

section \<open>Machine integers\<close>

text \<open>
  The C++ type \<^verbatim>\<open>int\<close> is 32 bits wide. A value of that type is an \<open>int\<close> in the range
  \<open>in_int32\<close>; a sum, difference or product is computed on the integers and wrapped to
  32 bits in two's complement, which is what the compiled code yields where C++ leaves
  signed overflow undefined. The statements below that name a sum or a product in plain
  arithmetic assume that it is in range.
\<close>

definition in_int32 :: "int \<Rightarrow> bool" where
  "in_int32 x = (- 2147483648 \<le> x \<and> x < 2147483648)"

definition wrap32 :: "int \<Rightarrow> int" where
  "wrap32 x = (x + 2147483648) mod 4294967296 - 2147483648"

definition add32 :: "int \<Rightarrow> int \<Rightarrow> int" where
  "add32 x y = wrap32 (x + y)"

definition sub32 :: "int \<Rightarrow> int \<Rightarrow> int" where
  "sub32 x y = wrap32 (x - y)"

definition mul32 :: "int \<Rightarrow> int \<Rightarrow> int" where
  "mul32 x y = wrap32 (x * y)"

text \<open>
  The conversion of an \<^verbatim>\<open>int\<close> to \<^verbatim>\<open>size_t\<close> (64 bits) and the number of four-byte cells
  in \<^verbatim>\<open>n * sizeof(int)\<close> bytes, the product taken in \<^verbatim>\<open>size_t\<close>.
\<close>

definition size_t_cells :: "int \<Rightarrow> nat" where
  "size_t_cells n = nat ((n mod 18446744073709551616) * 4 mod 18446744073709551616 div 4)"

section \<open>The GPT model (models/gpt.cc)\<close>

subsection \<open>Configuration, layers and the observable calls\<close>

text \<open>
  The fields of the weight table \<^verbatim>\<open>tw_\<close> that gpt.cc reads, the constructor argument
  \<^verbatim>\<open>max_batch_size\<close>, and the two preprocessor switches \<^verbatim>\<open>LIGHTSEQ_cuda\<close> and
  \<^verbatim>\<open>FP16_MODE\<close>.
\<close>

record model_config =
  max_batch_size :: int
  max_step :: int
  beam_size :: int
  hidden_size :: int
  n_enc_layer :: nat
  beam_search :: bool
  lightseq_cuda :: bool
  fp16_mode :: bool

datatype layer = LaunchGptEmb | GptLayer nat | LyrNormalize | Linear | Generator

text \<open>
  Every call that \<^verbatim>\<open>Gpt::Infer\<close> makes on a layer, on the Context or on the model's
  shape table is recorded, in order, with its arguments.
\<close>

datatype event =
    BeforeForward layer "int list"
  | Forward layer
  | IsStop bool
  | SwapTensor var_ptr var_ptr
  | Synchronize
  | SetOutputShape int "int list"

text \<open>
  The generator layer (decoding strategy) is not among the sources; it is a parameter of
  the model. Its state \<open>'g\<close> is arbitrary. \<open>g_before_forward\<close> receives the three
  arguments of \<^verbatim>\<open>_generator_layer->before_forward\<close>; \<open>g_forward\<close> reads the buffer of the
  input-token Variable and the buffer of the output-token Variable and returns the new
  contents of the latter; \<open>g_is_stop\<close> is \<^verbatim>\<open>_generator_layer->is_stop()\<close>.
\<close>

record 'g generator =
  g_before_forward :: "int \<Rightarrow> int \<Rightarrow> int \<Rightarrow> 'g \<Rightarrow> 'g"
  g_forward :: "'g \<Rightarrow> int list \<Rightarrow> int list \<Rightarrow> 'g \<times> int list"
  g_is_stop :: "'g \<Rightarrow> bool"

record 'g gpt =
  vars :: var_store
  mem :: "handle \<Rightarrow> int list"
  inp_tokens :: var_ptr
  out_tokens :: var_ptr
  input_ptr :: handle
  gpt_out_ptr :: handle
  input_shapes :: "int \<Rightarrow> int list"
  output_shapes :: "int \<Rightarrow> int list"
  gen :: 'g
  trace :: "event list"

definition emit :: "event list \<Rightarrow> 'g gpt \<Rightarrow> 'g gpt" where
  "emit es st = st\<lparr>trace := trace st @ es\<rparr>"

subsection \<open>Gpt::before_forward\<close>

definition before_forward_events :: "model_config \<Rightarrow> int \<Rightarrow> int \<Rightarrow> int \<Rightarrow> event list" where
  "before_forward_events cfg batch_size seq_len steps =
     (if steps = 0 then
        [BeforeForward LaunchGptEmb [mul32 batch_size (beam_size cfg), seq_len, 0]]
        @ map (\<lambda>i. BeforeForward (GptLayer i) [mul32 batch_size (beam_size cfg), seq_len, 0])
            [0..<n_enc_layer cfg]
        @ [BeforeForward LyrNormalize [mul32 batch_size (beam_size cfg), seq_len],
           BeforeForward Linear [mul32 batch_size (beam_size cfg), seq_len],
           BeforeForward Generator [batch_size, seq_len, 0]]
      else
        [BeforeForward LaunchGptEmb
           [mul32 batch_size (beam_size cfg), 1, sub32 (add32 seq_len steps) 1]]
        @ map (\<lambda>i. BeforeForward (GptLayer i)
                      [mul32 batch_size (beam_size cfg), 1, add32 seq_len steps])
            [0..<n_enc_layer cfg]
        @ [BeforeForward LyrNormalize [mul32 batch_size (beam_size cfg), 1],
           BeforeForward Linear [mul32 batch_size (beam_size cfg), 1],
           BeforeForward Generator [batch_size, 1, sub32 (add32 seq_len steps) 1]])"

definition before_forward ::
  "model_config \<Rightarrow> 'g generator \<Rightarrow> int \<Rightarrow> int \<Rightarrow> int \<Rightarrow> 'g gpt \<Rightarrow> 'g gpt" where
  "before_forward cfg G batch_size seq_len steps st =
     emit (before_forward_events cfg batch_size seq_len steps)
       (st\<lparr>gen := (if steps = 0 then g_before_forward G batch_size seq_len 0 (gen st)
                   else g_before_forward G batch_size 1 (sub32 (add32 seq_len steps) 1)
                          (gen st))\<rparr>)"

subsection \<open>One forward pass over the layer stack\<close>

definition forward_events :: "model_config \<Rightarrow> event list" where
  "forward_events cfg =
     [Forward LaunchGptEmb] @ map (\<lambda>i. Forward (GptLayer i)) [0..<n_enc_layer cfg]
     @ [Forward LyrNormalize, Forward Linear, Forward Generator]"

text \<open>
  Of the five kinds of layer only the generator writes a token buffer: it reads the
  buffer of \<^verbatim>\<open>_inp_tokens\<close> and writes the buffer of \<^verbatim>\<open>_out_tokens\<close> (the wiring of
  step 5 of the constructor).
\<close>

definition forward_all :: "model_config \<Rightarrow> 'g generator \<Rightarrow> 'g gpt \<Rightarrow> 'g gpt" where
  "forward_all cfg G st =
     (let hi = buffer (vars st (inp_tokens st));
          ho = buffer (vars st (out_tokens st));
          r = g_forward G (gen st) (mem st hi) (mem st ho)
      in emit (forward_events cfg) (st\<lparr>gen := fst r, mem := (mem st)(ho := snd r)\<rparr>))"

definition run_pass ::
  "model_config \<Rightarrow> 'g generator \<Rightarrow> int \<Rightarrow> int \<Rightarrow> int \<Rightarrow> 'g gpt \<Rightarrow> 'g gpt" where
  "run_pass cfg G batch_size seq_len steps st =
     (let st1 = forward_all cfg G (before_forward cfg G batch_size seq_len steps st)
      in emit [IsStop (g_is_stop G (gen st1))] st1)"

definition swap_tokens :: "'g gpt \<Rightarrow> 'g gpt" where
  "swap_tokens st =
     emit [SwapTensor (inp_tokens st) (out_tokens st)]
       (st\<lparr>vars := swap_tensor (inp_tokens st) (out_tokens st) (vars st)\<rparr>)"

subsection \<open>The decode loop of Gpt::Infer\<close>

text \<open>
  The source loop is \<^verbatim>\<open>while (true)\<close> with two \<^verbatim>\<open>break\<close>s. Started from an arbitrary
  counter it need not end, so it is a partial function: \<open>None\<close> is "does not return".
  The result is the state and the value of \<^verbatim>\<open>steps\<close> at the \<^verbatim>\<open>break\<close>.
\<close>

partial_function (option) infer_loop ::
  "model_config \<Rightarrow> 'g generator \<Rightarrow> int \<Rightarrow> int \<Rightarrow> int \<Rightarrow> 'g gpt \<Rightarrow> ('g gpt \<times> int) option" where
  "infer_loop cfg G batch_size seq_len steps st =
     (let st1 = run_pass cfg G batch_size seq_len steps st
      in if g_is_stop G (gen st1) then Some (st1, steps)
         else let st2 = swap_tokens st1
              in if steps = 1 then Some (st2, steps)
                 else infer_loop cfg G batch_size seq_len (add32 steps 1) st2)"

declare infer_loop.simps [code]

subsection \<open>Loading the prompt (the CUDA block of Gpt::Infer)\<close>

text \<open>
  \<^verbatim>\<open>cudaMemset\<close> fills bytes: the value \<^verbatim>\<open>int(345)\<close> is converted to an unsigned byte,
  \<open>345 mod 256 = 89 = 0x59\<close>, so every four-byte \<^verbatim>\<open>int\<close> cell becomes \<open>0x59595959\<close>.
  A write outside a buffer is undefined behaviour in the source; \<open>memset_ints\<close> and
  \<open>write_at\<close> drop the part that falls outside. Device errors caught by
  \<^verbatim>\<open>CHECK_GPU_ERROR\<close> are outside the model: the copies succeed, and a copy of negative
  length copies nothing.
\<close>

definition memset_byte :: int where
  "memset_byte = 345 mod 256"

definition memset_cell :: int where
  "memset_cell = ((memset_byte * 256 + memset_byte) * 256 + memset_byte) * 256 + memset_byte"

definition memset_ints :: "int list \<Rightarrow> nat \<Rightarrow> int list" where
  "memset_ints buf n = replicate (min n (length buf)) memset_cell @ drop n buf"

fun write_at :: "int list \<Rightarrow> int \<Rightarrow> int list \<Rightarrow> int list" where
  "write_at buf off [] = buf"
| "write_at buf off (x # xs) =
     write_at (if 0 \<le> off then buf[nat off := x] else buf) (off + 1) xs"

text \<open>
  The row offsets \<^verbatim>\<open>(i * beam_size + j) * max_step\<close> in the order of the two nested
  loops. Every row receives the first \<^verbatim>\<open>seq_len\<close> cells at \<^verbatim>\<open>_input_ptr\<close>: the source
  pointer is not advanced with \<^verbatim>\<open>i\<close>.
\<close>

definition row_offsets :: "model_config \<Rightarrow> int \<Rightarrow> int list" where
  "row_offsets cfg batch_size =
     concat (map (\<lambda>i. map (\<lambda>j. mul32 (add32 (mul32 (int i) (beam_size cfg)) (int j))
                                      (max_step cfg))
                          [0..<nat (beam_size cfg)])
                 [0..<nat batch_size])"

definition copy_row :: "handle \<Rightarrow> handle \<Rightarrow> nat \<Rightarrow> int \<Rightarrow> (handle \<Rightarrow> int list) \<Rightarrow> (handle \<Rightarrow> int list)" where
  "copy_row dst src n off m = m(dst := write_at (m dst) off (take n (m src)))"

definition load_prompt :: "model_config \<Rightarrow> int \<Rightarrow> int \<Rightarrow> 'g gpt \<Rightarrow> 'g gpt" where
  "load_prompt cfg batch_size seq_len st =
     (let h = buffer (vars st (inp_tokens st));
          m0 = (mem st)(h := memset_ints (mem st h)
                  (size_t_cells (mul32 (mul32 batch_size (beam_size cfg)) (max_step cfg))))
      in st\<lparr>mem := fold (copy_row h (input_ptr st) (nat seq_len))
                       (row_offsets cfg batch_size) m0\<rparr>)"

subsection \<open>Gpt::Infer\<close>

text \<open>
  Modelled from the spec: the shape table of the base class \<^verbatim>\<open>LSModel\<close> (\<^verbatim>\<open>model_base.h\<close> is
  not among the sources). \<^verbatim>\<open>set_output_shape\<close> publishes the shape of an output slot, which
  \<^verbatim>\<open>get_output_shape\<close> returns; \<^verbatim>\<open>Context::synchronize\<close> is recorded as a call.
\<close>

definition synchronize :: "'g gpt \<Rightarrow> 'g gpt" where
  "synchronize st = emit [Synchronize] st"

definition set_output_shape :: "int \<Rightarrow> int list \<Rightarrow> 'g gpt \<Rightarrow> 'g gpt" where
  "set_output_shape index shape st =
     emit [SetOutputShape index shape] (st\<lparr>output_shapes := (output_shapes st)(index := shape)\<rparr>)"

definition get_output_shape :: "int \<Rightarrow> 'g gpt \<Rightarrow> int list" where
  "get_output_shape index st = output_shapes st index"

text \<open>
  Reads that the source makes without a check and that are undefined behaviour when the
  object is not there: the two dimensions of the input shape in \<^verbatim>\<open>Gpt::Infer\<close>, and the
  parent and child nodes of an operator.
\<close>

datatype fault = ShapeOutOfRange | MissingNode

text \<open>
  \<^verbatim>\<open>Infer\<close> reads \<^verbatim>\<open>input_shapes_[0][0]\<close> and \<^verbatim>\<open>input_shapes_[0][1]\<close>; when the caller has
  not set a shape of at least two dimensions the result is the fault \<open>ShapeOutOfRange\<close>.
  \<open>None\<close> is a run whose loop does not return. The empty \<^verbatim>\<open>BeamSearch\<close> branch of the
  loop ("refresh cache") has no effect and is omitted.
\<close>

definition Infer :: "model_config \<Rightarrow> 'g generator \<Rightarrow> 'g gpt \<Rightarrow> (fault + 'g gpt) option" where
  "Infer cfg G st =
     (case input_shapes st 0 of
        batch_size # seq_len # _ \<Rightarrow>
          (let st0 = (if lightseq_cuda cfg then load_prompt cfg batch_size seq_len st else st)
           in case infer_loop cfg G batch_size seq_len 0 st0 of
                None \<Rightarrow> None
              | Some (st1, steps) \<Rightarrow>
                  Some (Inr (set_output_shape 0 [batch_size, add32 seq_len steps]
                               (synchronize st1))))
      | _ \<Rightarrow> Some (Inl ShapeOutOfRange))"

text \<open>
  The first two iterations of the loop, named for the statements below: the pass at
  \<^verbatim>\<open>steps = 0\<close> over the state in which the loop starts, and the pass at \<^verbatim>\<open>steps = 1\<close>
  over the state after the swap that follows the first pass.
\<close>

definition loop_entry :: "model_config \<Rightarrow> int \<Rightarrow> int \<Rightarrow> 'g gpt \<Rightarrow> 'g gpt" where
  "loop_entry cfg batch_size seq_len st =
     (if lightseq_cuda cfg then load_prompt cfg batch_size seq_len st else st)"

definition prefill_pass ::
  "model_config \<Rightarrow> 'g generator \<Rightarrow> int \<Rightarrow> int \<Rightarrow> 'g gpt \<Rightarrow> 'g gpt" where
  "prefill_pass cfg G batch_size seq_len st =
     run_pass cfg G batch_size seq_len 0 (loop_entry cfg batch_size seq_len st)"

definition decode_pass ::
  "model_config \<Rightarrow> 'g generator \<Rightarrow> int \<Rightarrow> int \<Rightarrow> 'g gpt \<Rightarrow> 'g gpt" where
  "decode_pass cfg G batch_size seq_len st =
     run_pass cfg G batch_size seq_len 1 (swap_tokens (prefill_pass cfg G batch_size seq_len st))"

definition pass_events :: "model_config \<Rightarrow> int \<Rightarrow> int \<Rightarrow> int \<Rightarrow> bool \<Rightarrow> event list" where
  "pass_events cfg batch_size seq_len steps stop =
     before_forward_events cfg batch_size seq_len steps @ forward_events cfg @ [IsStop stop]"

text \<open>
  The calls of a run, in the three ways the loop can end: stop after the first pass, stop
  after the second pass, or the exit at \<^verbatim>\<open>steps == 1\<close> after the second swap.
\<close>

definition run_events ::
  "model_config \<Rightarrow> 'g generator \<Rightarrow> int \<Rightarrow> int \<Rightarrow> 'g gpt \<Rightarrow> event list" where
  "run_events cfg G b s st =
     (let sw = SwapTensor (inp_tokens st) (out_tokens st)
      in if g_is_stop G (gen (prefill_pass cfg G b s st)) then pass_events cfg b s 0 True
         else if g_is_stop G (gen (decode_pass cfg G b s st))
           then pass_events cfg b s 0 False @ [sw] @ pass_events cfg b s 1 True
           else pass_events cfg b s 0 False @ [sw] @ pass_events cfg b s 1 False @ [sw])"

definition run_steps :: "model_config \<Rightarrow> 'g generator \<Rightarrow> int \<Rightarrow> int \<Rightarrow> 'g gpt \<Rightarrow> int" where
  "run_steps cfg G b s st = (if g_is_stop G (gen (prefill_pass cfg G b s st)) then 0 else 1)"

text \<open>The number of forward passes over the layer stack among a list of calls.\<close>

definition forward_passes :: "event list \<Rightarrow> nat" where
  "forward_passes es = length (filter (\<lambda>e. e = Forward Generator) es)"

text \<open>
  A decode transition is a forward pass after the first one (the prefill pass over the
  whole prompt).
\<close>

definition decode_transitions :: "event list \<Rightarrow> nat" where
  "decode_transitions es = forward_passes es - 1"

text \<open>What a caller observes of a run that returned: the calls made, the published shape
  of slot 0, and the contents of the buffers that the two token Variables refer to.\<close>

definition returned :: "(fault + 'g gpt) option \<Rightarrow> 'g gpt option" where
  "returned r = (case r of Some (Inr st) \<Rightarrow> Some st | _ \<Rightarrow> None)"

definition calls_of :: "(fault + 'g gpt) option \<Rightarrow> event list" where
  "calls_of r = (case returned r of None \<Rightarrow> [] | Some st \<Rightarrow> trace st)"

definition published_shape :: "(fault + 'g gpt) option \<Rightarrow> int list option" where
  "published_shape r = map_option (get_output_shape 0) (returned r)"

definition inp_tokens_buffer :: "'g gpt \<Rightarrow> int list" where
  "inp_tokens_buffer st = mem st (buffer (vars st (inp_tokens st)))"

definition out_tokens_buffer :: "'g gpt \<Rightarrow> int list" where
  "out_tokens_buffer st = mem st (buffer (vars st (out_tokens st)))"

definition final_inp_tokens :: "nat \<Rightarrow> (fault + 'g gpt) option \<Rightarrow> int list option" where
  "final_inp_tokens n r = map_option (take n \<circ> inp_tokens_buffer) (returned r)"

definition final_out_tokens :: "nat \<Rightarrow> (fault + 'g gpt) option \<Rightarrow> int list option" where
  "final_out_tokens n r = map_option (take n \<circ> out_tokens_buffer) (returned r)"

subsection \<open>Slot accessors\<close>

datatype error = RuntimeError string

datatype DataType = kInt32 | kFloat16 | kFloat32

definition set_input_ptr :: "int \<Rightarrow> handle \<Rightarrow> 'g gpt \<Rightarrow> error + 'g gpt" where
  "set_input_ptr index p st =
     (if index = 0 then Inr (st\<lparr>input_ptr := p\<rparr>)
      else Inl (RuntimeError ''invalid input index''))"

definition set_output_ptr :: "int \<Rightarrow> handle \<Rightarrow> 'g gpt \<Rightarrow> error + 'g gpt" where
  "set_output_ptr index p st =
     (if index = 0 then Inr (st\<lparr>gpt_out_ptr := p\<rparr>)
      else Inl (RuntimeError ''invalid output index''))"

definition get_output_ptr :: "int \<Rightarrow> 'g gpt \<Rightarrow> error + handle" where
  "get_output_ptr index st =
     (if index = 0 then Inr (gpt_out_ptr st)
      else Inl (RuntimeError ''invalid output index''))"

definition get_input_max_shape :: "model_config \<Rightarrow> int \<Rightarrow> error + int list" where
  "get_input_max_shape cfg index =
     (if index = 0 then Inr [max_batch_size cfg, max_step cfg]
      else Inl (RuntimeError ''invalid input index''))"

definition get_output_max_shape :: "model_config \<Rightarrow> int \<Rightarrow> error + int list" where
  "get_output_max_shape cfg index =
     (if index = 0 then Inr [max_batch_size cfg, max_step cfg, hidden_size cfg]
      else Inl (RuntimeError ''invalid output index''))"

definition get_input_dtype :: "int \<Rightarrow> error + DataType" where
  "get_input_dtype index =
     (if index = 0 then Inr kInt32
      else Inl (RuntimeError ''invalid input index''))"

definition get_output_dtype :: "model_config \<Rightarrow> int \<Rightarrow> error + DataType" where
  "get_output_dtype cfg index =
     (if index = 0 then Inr (if fp16_mode cfg then kFloat16 else kFloat32)
      else Inl (RuntimeError ''invalid output index''))"

subsection \<open>The stub decoding strategy of the end-to-end scenarios\<close>

text \<open>
  Modelled from the spec: "a stub Decoding Strategy that always emits token 99 for 2
  steps then signals stop". The stub counts its forward calls. On a call for which
  \<open>emits\<close> holds it copies the running sequence and appends the token at the position
  after the tokens seen so far, \<^verbatim>\<open>cur_step + step_token_num\<close> in the arguments of its
  \<^verbatim>\<open>before_forward\<close>; \<open>stops\<close> tells, from the number of calls made, whether it reports
  stop.
\<close>

record stub_state =
  calls :: nat
  cur_batch :: int
  step_token_num :: int
  cur_step :: int

definition stub :: "int \<Rightarrow> (nat \<Rightarrow> bool) \<Rightarrow> (nat \<Rightarrow> bool) \<Rightarrow> stub_state generator" where
  "stub tok emits stops =
     \<lparr> g_before_forward = (\<lambda>b s c g. g\<lparr>cur_batch := b, step_token_num := s, cur_step := c\<rparr>),
       g_forward = (\<lambda>g inp out.
          (g\<lparr>calls := Suc (calls g)\<rparr>,
           if emits (calls g) then inp[nat (cur_step g + step_token_num g) := tok] else out)),
       g_is_stop = (\<lambda>g. stops (calls g)) \<rparr>"

definition emits_first :: "nat \<Rightarrow> nat \<Rightarrow> bool" where
  "emits_first n c = (c < n)"

definition stops_from :: "nat \<Rightarrow> nat \<Rightarrow> bool" where
  "stops_from n c = (n \<le> c)"

definition never_stops :: "nat \<Rightarrow> bool" where
  "never_stops c = False"

definition stub_init :: stub_state where
  "stub_init = \<lparr> calls = 0, cur_batch = 0, step_token_num = 0, cur_step = 0 \<rparr>"

text \<open>
  The scenario: batch 1, beam width 1, a prompt of \<open>n\<close> cells, \<^verbatim>\<open>max_step\<close> cells per row.
  Buffer 0 backs \<^verbatim>\<open>_inp_tokens\<close>, buffer 1 backs \<^verbatim>\<open>_out_tokens\<close>, buffer 2 is the caller's
  input and buffer 3 the caller's output; Variable 0 is \<^verbatim>\<open>_inp_tokens\<close>, Variable 1 is
  \<^verbatim>\<open>_out_tokens\<close>.
\<close>

definition scenario_config :: "int \<Rightarrow> model_config" where
  "scenario_config ms =
     \<lparr> max_batch_size = 1, max_step = ms, beam_size = 1, hidden_size = 4, n_enc_layer = 1,
       beam_search = False, lightseq_cuda = True, fp16_mode = False \<rparr>"

definition scenario_state :: "int list \<Rightarrow> int \<Rightarrow> stub_state gpt" where
  "scenario_state prompt ms =
     \<lparr> vars = (\<lambda>p. \<lparr>var_name = ''out_tokens'', buffer = 1\<rparr>)
                (0 := \<lparr>var_name = ''inp_tokens'', buffer = 0\<rparr>),
       mem = (\<lambda>h. if h = 2 then prompt else replicate (nat ms) 0),
       inp_tokens = 0, out_tokens = 1, input_ptr = 2, gpt_out_ptr = 3,
       input_shapes = (\<lambda>i. if i = 0 then [1, int (length prompt)] else []),
       output_shapes = (\<lambda>i. []),
       gen = stub_init, trace = [] \<rparr>"

definition always_emits :: "nat \<Rightarrow> bool" where
  "always_emits c = True"

definition scenario_run ::
  "(nat \<Rightarrow> bool) \<Rightarrow> (nat \<Rightarrow> bool) \<Rightarrow> int \<Rightarrow> (fault + stub_state gpt) option" where
  "scenario_run emits stops ms =
     Infer (scenario_config ms) (stub 99 emits stops) (scenario_state [45, 90, 12] ms)"

section \<open>The strided batched GEMM operator (\<^verbatim>\<open>ops_new/strided_batch_gemm.cpp\<close>)\<close>

datatype MATRIX_OP = Transpose | NonTranspose

datatype cublasOperation_t = CUBLAS_OP_N | CUBLAS_OP_T

text \<open>
  Modelled from the spec: the accessors of a Variable (node.h is not among the sources),
  "\<^verbatim>\<open>value()\<close> / \<^verbatim>\<open>gradient()\<close> accessors return typed device pointers into the current
  buffer". A device pointer names the value region or the gradient region of a buffer.
\<close>

datatype dev_ptr = ValuePtr handle | GradPtr handle

definition var_value :: "variable \<Rightarrow> dev_ptr" where
  "var_value v = ValuePtr (buffer v)"

definition var_grad :: "variable \<Rightarrow> dev_ptr" where
  "var_grad v = GradPtr (buffer v)"

text \<open>
  The members of \<^verbatim>\<open>StridedBatchGemmOp\<close> (\<^verbatim>\<open>strided_batch_gemm.h\<close>) and the parent and child
  lists of its base class. The element type \<open>'f\<close> stands for \<^verbatim>\<open>float\<close> or \<^verbatim>\<open>__half\<close>;
  no arithmetic on it is modelled.
\<close>

record 'f gemm_op =
  op_m :: int
  op_n :: int
  op_k :: int
  max_ele_num :: nat
  batch_heads :: int
  alpha :: 'f
  beta :: 'f
  gemm_algos :: "int \<times> int \<times> int"
  max_seq :: int
  op_A :: cublasOperation_t
  op_B :: cublasOperation_t
  op_AA :: MATRIX_OP
  op_BB :: MATRIX_OP
  parents :: "variable list"
  children :: "variable list"

text \<open>The arguments of one call of \<^verbatim>\<open>cublas_strided_batched_gemm\<close>, in order.\<close>

record 'f gemm_call =
  c_m :: int
  c_n :: int
  c_k :: int
  c_alpha :: 'f
  c_beta :: 'f
  c_A :: dev_ptr
  c_B :: dev_ptr
  c_C :: dev_ptr
  c_op_A :: cublasOperation_t
  c_op_B :: cublasOperation_t
  c_stride_A :: int
  c_stride_B :: int
  c_stride_C :: int
  c_batch_count :: int
  c_algo :: int

text \<open>
  The device: the contents of every region and the kernels launched so far. The kernel
  itself is not among the sources and computes in floating point; it is the parameter
  \<open>K\<close>, which gives the new contents of the result region.
\<close>

record 'f device =
  dmem :: "dev_ptr \<Rightarrow> 'f list"
  launches :: "'f gemm_call list"

type_synonym 'f gemm_kernel = "'f gemm_call \<Rightarrow> (dev_ptr \<Rightarrow> 'f list) \<Rightarrow> 'f list"

definition cublas_strided_batched_gemm ::
  "'f gemm_kernel \<Rightarrow> 'f gemm_call \<Rightarrow> 'f device \<Rightarrow> 'f device" where
  "cublas_strided_batched_gemm K c dev =
     dev\<lparr>dmem := (dmem dev)(c_C c := K c (dmem dev)), launches := launches dev @ [c]\<rparr>"

record Context =
  built :: bool

definition is_built :: "Context \<Rightarrow> bool" where
  "is_built ctx = built ctx"

text \<open>
  \<^verbatim>\<open>parent(i)\<close> and \<^verbatim>\<open>child(i)\<close> on an operator that has not been wired dereference a
  node that does not exist; the model returns the fault \<open>MissingNode\<close> there.
\<close>

definition before_forward_gemm ::
  "int \<Rightarrow> int \<Rightarrow> int \<Rightarrow> int \<Rightarrow> int option \<Rightarrow> 'f gemm_op \<Rightarrow> 'f gemm_op" where
  "before_forward_gemm mm nn kk bh ms op =
     op\<lparr>op_m := mm, op_n := nn, op_k := kk, batch_heads := bh,
        max_seq := (case ms of None \<Rightarrow> - 1 | Some s \<Rightarrow> s)\<rparr>"

text \<open>The wiring call \<^verbatim>\<open>operator()\<close>: \<open>result\<close> is the freshly allocated child.\<close>

definition wire_gemm :: "variable \<Rightarrow> variable \<Rightarrow> variable \<Rightarrow> 'f gemm_op \<Rightarrow> 'f gemm_op" where
  "wire_gemm inpA inpB result op = op\<lparr>parents := [inpA, inpB], children := [result]\<rparr>"

text \<open>
  \<^verbatim>\<open>forward\<close> and \<^verbatim>\<open>backward\<close> assign no member of the operator; the result is the device
  after the call. \<open>cuda\<close> is the preprocessor switch \<^verbatim>\<open>LIGHTSEQ_cuda\<close>.
\<close>

definition forward_gemm ::
  "bool \<Rightarrow> 'f gemm_kernel \<Rightarrow> Context \<Rightarrow> 'f gemm_op \<Rightarrow> 'f device \<Rightarrow> fault + 'f device" where
  "forward_gemm cuda K ctx op dev =
     (case parents op of
        pa # pb # _ \<Rightarrow>
          (case children op of
             ch # _ \<Rightarrow>
               (let buffer_a = var_value pa; buffer_b = var_value pb; output = var_value ch
                in if \<not> is_built ctx then Inr dev
                   else
                     (let stride_a = (if max_seq op > 0
                                      then mul32 (max_seq op)
                                             (if op_AA op = NonTranspose then op_m op else op_k op)
                                      else mul32 (op_m op) (op_k op));
                          stride_b = mul32 (op_n op) (op_k op);
                          stride_c = mul32 (op_m op) (op_n op)
                      in if cuda then
                           Inr (cublas_strided_batched_gemm K
                                  \<lparr> c_m = op_m op, c_n = op_n op, c_k = op_k op,
                                    c_alpha = alpha op, c_beta = beta op,
                                    c_A = buffer_a, c_B = buffer_b, c_C = output,
                                    c_op_A = op_A op, c_op_B = op_B op,
                                    c_stride_A = stride_a, c_stride_B = stride_b,
                                    c_stride_C = stride_c, c_batch_count = batch_heads op,
                                    c_algo = fst (gemm_algos op) \<rparr> dev)
                         else Inr dev))
           | [] \<Rightarrow> Inl MissingNode)
      | _ \<Rightarrow> Inl MissingNode)"

definition backward_gemm ::
  "bool \<Rightarrow> 'f gemm_kernel \<Rightarrow> Context \<Rightarrow> 'f gemm_op \<Rightarrow> 'f device \<Rightarrow> fault + 'f device" where
  "backward_gemm cuda K ctx op dev =
     (let mb = (if op_AA op = Transpose then op_k op else op_m op);
          kb = (if op_AA op = Transpose then op_m op else op_k op)
      in case parents op of
           pa # pb # _ \<Rightarrow>
             (case children op of
                ch # _ \<Rightarrow>
                  (let buffer_a = var_value pa; buffer_b = var_value pb;
                       d_output = var_grad ch;
                       inpGradA = var_grad pa; inpGradB = var_grad pb
                   in if \<not> is_built ctx then Inr dev
                      else if cuda then
                        (let op_b = (if op_B op = CUBLAS_OP_T then CUBLAS_OP_N else CUBLAS_OP_T);
                             dev1 = cublas_strided_batched_gemm K
                                  \<lparr> c_m = mb, c_n = kb, c_k = op_n op,
                                    c_alpha = alpha op, c_beta = beta op,
                                    c_A = (if op_A op = CUBLAS_OP_T then buffer_b else d_output),
                                    c_B = (if op_A op = CUBLAS_OP_T then d_output else buffer_b),
                                    c_C = inpGradA,
                                    c_op_A = CUBLAS_OP_N, c_op_B = op_b,
                                    c_stride_A = mul32 mb (op_n op),
                                    c_stride_B = mul32 (op_n op) kb,
                                    c_stride_C = mul32 (op_m op) (op_k op),
                                    c_batch_count = batch_heads op,
                                    c_algo = fst (snd (gemm_algos op)) \<rparr> dev;
                             op_a = (if op_A op = CUBLAS_OP_T then CUBLAS_OP_N else CUBLAS_OP_T)
                         in Inr (cublas_strided_batched_gemm K
                                  \<lparr> c_m = op_k op, c_n = op_n op, c_k = op_m op,
                                    c_alpha = alpha op, c_beta = beta op,
                                    c_A = buffer_a, c_B = d_output, c_C = inpGradB,
                                    c_op_A = op_a, c_op_B = CUBLAS_OP_N,
                                    c_stride_A = mul32 (op_m op) (op_k op),
                                    c_stride_B = mul32 (op_m op) (op_n op),
                                    c_stride_C = mul32 (op_n op) (op_k op),
                                    c_batch_count = batch_heads op,
                                    c_algo = snd (snd (gemm_algos op)) \<rparr> dev1))
                      else Inr dev)
              | [] \<Rightarrow> Inl MissingNode)
         | _ \<Rightarrow> Inl MissingNode)"

text \<open>
  A wired operator for the examples below: the product of a \<open>2 \<times> 4\<close> by a \<open>4 \<times> 3\<close>
  matrix in one batch, over three Variables with buffers 0, 1 and 2.
\<close>

definition example_gemm_op :: "int gemm_op" where
  "example_gemm_op =
     wire_gemm \<lparr>var_name = ''inpA'', buffer = 0\<rparr> \<lparr>var_name = ''inpB'', buffer = 1\<rparr>
       \<lparr>var_name = ''StridedBatchGemmOp_out'', buffer = 2\<rparr>
       (before_forward_gemm 2 3 4 1 None
          \<lparr> op_m = 0, op_n = 0, op_k = 0, max_ele_num = 12, batch_heads = 0,
            alpha = 1, beta = 0, gemm_algos = (99, 99, 99), max_seq = 0,
            op_A = CUBLAS_OP_N, op_B = CUBLAS_OP_N, op_AA = NonTranspose, op_BB = NonTranspose,
            parents = [], children = [] \<rparr>)"

definition example_kernel :: "int gemm_kernel" where
  "example_kernel c m = replicate (nat (c_m c * c_n c)) 0"

definition example_device :: "int device" where
  "example_device = \<lparr> dmem = (\<lambda>p. []), launches = [] \<rparr>"


section \<open>Properties\<close>

subsection \<open>Buffer exchange\<close>

text \<open>
  Claim C10. Swapping two Variables twice is the identity: after \<open>A.swap(B); A.swap(B)\<close>
  every Variable of the store, \<open>A\<close> and \<open>B\<close> included, refers to the buffer it referred
  to before the first swap. This holds for any two pointers, also when both name the
  same Variable.
\<close>

theorem swap_tensor_twice: "swap_tensor a b (swap_tensor a b vs) = vs"
  by (rule ext) (simp add: swap_tensor_def Let_def)

lemma swap_tensor_buffers:
  "buffer (swap_tensor a b vs a) = buffer (vs b)"
  "buffer (swap_tensor a b vs b) = buffer (vs a)"
  by (simp_all add: swap_tensor_def Let_def)

lemma swap_tensor_other: "p \<noteq> a \<Longrightarrow> p \<noteq> b \<Longrightarrow> swap_tensor a b vs p = vs p"
  by (simp add: swap_tensor_def Let_def)

subsection \<open>Slot accessors\<close>

text \<open>
  Claim C8. For every slot index other than 0 each of \<open>set_input_ptr\<close>,
  \<open>set_output_ptr\<close>, \<open>get_output_ptr\<close>, \<open>get_input_max_shape\<close>, \<open>get_output_max_shape\<close>,
  \<open>get_input_dtype\<close> and \<open>get_output_dtype\<close> fails with the runtime error "invalid input
  index" or "invalid output index"; for slot 0 each succeeds, and slot 0 is the input of
  token ids (32-bit integers).
\<close>

theorem slot_accessors_index:
  "(index \<noteq> 0 \<longrightarrow>
      set_input_ptr index p st = Inl (RuntimeError ''invalid input index'') \<and>
      set_output_ptr index p st = Inl (RuntimeError ''invalid output index'') \<and>
      get_output_ptr index st = Inl (RuntimeError ''invalid output index'') \<and>
      get_input_max_shape cfg index = Inl (RuntimeError ''invalid input index'') \<and>
      get_output_max_shape cfg index = Inl (RuntimeError ''invalid output index'') \<and>
      get_input_dtype index = Inl (RuntimeError ''invalid input index'') \<and>
      get_output_dtype cfg index = Inl (RuntimeError ''invalid output index'')) \<and>
   (index = 0 \<longrightarrow>
      set_input_ptr index p st = Inr (st\<lparr>input_ptr := p\<rparr>) \<and>
      set_output_ptr index p st = Inr (st\<lparr>gpt_out_ptr := p\<rparr>) \<and>
      get_output_ptr index st = Inr (gpt_out_ptr st) \<and>
      get_input_max_shape cfg index = Inr [max_batch_size cfg, max_step cfg] \<and>
      get_output_max_shape cfg index = Inr [max_batch_size cfg, max_step cfg, hidden_size cfg] \<and>
      get_input_dtype index = Inr kInt32 \<and>
      get_output_dtype cfg index = Inr (if fp16_mode cfg then kFloat16 else kFloat32))"
  by (simp add: set_input_ptr_def set_output_ptr_def get_output_ptr_def
      get_input_max_shape_def get_output_max_shape_def get_input_dtype_def
      get_output_dtype_def)

theorem slot_accessors_index_witness:
  "(1::int) \<noteq> 0 \<and>
   set_input_ptr 1 7 (scenario_state [45, 90, 12] 8) = Inl (RuntimeError ''invalid input index'') \<and>
   get_output_ptr 1 (scenario_state [45, 90, 12] 8) = Inl (RuntimeError ''invalid output index'') \<and>
   get_output_dtype (scenario_config 8) 1 = Inl (RuntimeError ''invalid output index'') \<and>
   get_output_ptr 0 (scenario_state [45, 90, 12] 8) = Inr 3 \<and>
   get_input_max_shape (scenario_config 8) 0 = Inr [1, 8] \<and>
   get_output_max_shape (scenario_config 8) 0 = Inr [1, 8, 4] \<and>
   get_input_dtype 0 = Inr kInt32 \<and>
   get_output_dtype (scenario_config 8) 0 = Inr kFloat32"
  using slot_accessors_index [of 1 7 "scenario_state [45, 90, 12] 8" "scenario_config 8"]
    slot_accessors_index [of 0 7 "scenario_state [45, 90, 12] 8" "scenario_config 8"]
  by (simp add: scenario_state_def scenario_config_def)

subsection \<open>The GEMM operator in the building phase\<close>

text \<open>
  Claim C9. While the Context is still building (\<open>is_built\<close> is false), \<open>forward\<close> of the
  wired operator returns at once: no kernel is launched and every buffer is as before;
  the same holds for \<open>backward\<close>. Neither function assigns a member of the operator.
\<close>

theorem gemm_building_phase_noop:
  assumes "\<not> is_built ctx" and "2 \<le> length (parents op)" and "children op \<noteq> []"
  shows "forward_gemm cuda K ctx op dev = Inr dev \<and> backward_gemm cuda K ctx op dev = Inr dev"
  using assms
  by (auto simp: forward_gemm_def backward_gemm_def Let_def split: list.splits)

theorem gemm_building_phase_noop_witness:
  "\<not> is_built \<lparr>built = False\<rparr> \<and> 2 \<le> length (parents example_gemm_op) \<and>
   children example_gemm_op \<noteq> [] \<and>
   forward_gemm True example_kernel \<lparr>built = False\<rparr> example_gemm_op example_device
     = Inr example_device \<and>
   backward_gemm True example_kernel \<lparr>built = False\<rparr> example_gemm_op example_device
     = Inr example_device"
proof -
  have h1: "\<not> is_built \<lparr>built = False\<rparr>" by (simp add: is_built_def)
  have h2: "2 \<le> length (parents example_gemm_op)"
    by (simp add: example_gemm_op_def wire_gemm_def)
  have h3: "children example_gemm_op \<noteq> []"
    by (simp add: example_gemm_op_def wire_gemm_def)
  show ?thesis
    using h1 h2 h3 gemm_building_phase_noop [OF h1 h2 h3, of True example_kernel example_device]
    by simp
qed

text \<open>
  Once the Context is built the same call does launch the kernel (with CUDA compiled
  in), so the building phase is what makes the call a no-op.
\<close>

lemma forward_gemm_built_launches:
  "launches example_device = [] \<and>
   map_sum id (\<lambda>d. map (\<lambda>c. (c_m c, c_n c, c_k c, c_stride_A c, c_stride_B c, c_stride_C c)) (launches d))
     (forward_gemm True example_kernel \<lparr>built = True\<rparr> example_gemm_op example_device)
     = Inr [(2, 3, 4, 8, 12, 6)]"
  by (simp add: forward_gemm_def example_gemm_op_def wire_gemm_def before_forward_gemm_def
      is_built_def example_device_def cublas_strided_batched_gemm_def mul32_def wrap32_def
      Let_def)


subsection \<open>32-bit arithmetic in range\<close>

lemma wrap32_id: "in_int32 x \<Longrightarrow> wrap32 x = x"
  by (simp add: in_int32_def wrap32_def)

lemma add32_id: "in_int32 (x + y) \<Longrightarrow> add32 x y = x + y"
  by (simp add: add32_def wrap32_id)

lemma sub32_id: "in_int32 (x - y) \<Longrightarrow> sub32 x y = x - y"
  by (simp add: sub32_def wrap32_id)

lemma mul32_id: "in_int32 (x * y) \<Longrightarrow> mul32 x y = x * y"
  by (simp add: mul32_def wrap32_id)

lemma add32_0_1 [simp]: "add32 0 1 = 1"
  by (simp add: add32_def wrap32_def)

subsection \<open>The calls of one run of Infer\<close>

lemma trace_emit [simp]: "trace (emit es st) = trace st @ es"
  by (simp add: emit_def)

lemma gen_emit [simp]: "gen (emit es st) = gen st"
  by (simp add: emit_def)

lemma mem_emit [simp]: "mem (emit es st) = mem st"
  by (simp add: emit_def)

lemma vars_emit [simp]: "vars (emit es st) = vars st"
  by (simp add: emit_def)

lemma ptrs_emit [simp]:
  "inp_tokens (emit es st) = inp_tokens st" "out_tokens (emit es st) = out_tokens st"
  by (simp_all add: emit_def)

lemma trace_run_pass:
  "trace (run_pass cfg G b s k st) =
     trace st @ pass_events cfg b s k (g_is_stop G (gen (run_pass cfg G b s k st)))"
  by (simp add: run_pass_def forward_all_def before_forward_def pass_events_def Let_def)

lemma ptrs_run_pass [simp]:
  "inp_tokens (run_pass cfg G b s k st) = inp_tokens st"
  "out_tokens (run_pass cfg G b s k st) = out_tokens st"
  by (simp_all add: run_pass_def forward_all_def before_forward_def Let_def)

lemma trace_swap_tokens:
  "trace (swap_tokens st) = trace st @ [SwapTensor (inp_tokens st) (out_tokens st)]"
  by (simp add: swap_tokens_def)

lemma gen_swap_tokens [simp]: "gen (swap_tokens st) = gen st"
  by (simp add: swap_tokens_def)

lemma mem_swap_tokens [simp]: "mem (swap_tokens st) = mem st"
  by (simp add: swap_tokens_def)

lemma ptrs_swap_tokens [simp]:
  "inp_tokens (swap_tokens st) = inp_tokens st" "out_tokens (swap_tokens st) = out_tokens st"
  by (simp_all add: swap_tokens_def)

lemma trace_loop_entry [simp]: "trace (loop_entry cfg b s st) = trace st"
  by (simp add: loop_entry_def load_prompt_def Let_def)

lemma ptrs_loop_entry [simp]:
  "inp_tokens (loop_entry cfg b s st) = inp_tokens st"
  "out_tokens (loop_entry cfg b s st) = out_tokens st"
  by (simp_all add: loop_entry_def load_prompt_def Let_def)

text \<open>The loop unfolds once at each of the two counter values it can reach.\<close>

lemma infer_loop_last:
  "infer_loop cfg G b s 1 st =
     (let st1 = run_pass cfg G b s 1 st
      in Some (if g_is_stop G (gen st1) then st1 else swap_tokens st1, 1))"
  by (subst infer_loop.simps) (simp add: Let_def)

lemma infer_loop_first:
  "infer_loop cfg G b s 0 st =
     (let st1 = run_pass cfg G b s 0 st
      in if g_is_stop G (gen st1) then Some (st1, 0)
         else infer_loop cfg G b s 1 (swap_tokens st1))"
  by (subst infer_loop.simps) (simp add: Let_def)

lemma Infer_cases:
  assumes "input_shapes st 0 = b # s # rest"
  shows "Infer cfg G st =
     Some (Inr (let P0 = prefill_pass cfg G b s st; P1 = decode_pass cfg G b s st
           in if g_is_stop G (gen P0) then set_output_shape 0 [b, add32 s 0] (synchronize P0)
              else if g_is_stop G (gen P1) then set_output_shape 0 [b, add32 s 1] (synchronize P1)
              else set_output_shape 0 [b, add32 s 1] (synchronize (swap_tokens P1))))"
  using assms
  by (simp add: Infer_def infer_loop_first infer_loop_last prefill_pass_def decode_pass_def
      loop_entry_def Let_def)

lemma trace_finish:
  "trace (set_output_shape i sh (synchronize X)) = trace X @ [Synchronize, SetOutputShape i sh]"
  by (simp add: set_output_shape_def synchronize_def)

lemma shape_finish: "get_output_shape i (set_output_shape i sh X) = sh"
  by (simp add: set_output_shape_def get_output_shape_def emit_def)

lemma trace_prefill:
  "trace (prefill_pass cfg G b s st) =
     trace st @ pass_events cfg b s 0
                  (g_is_stop G (gen (prefill_pass cfg G b s st)))"
  unfolding prefill_pass_def by (subst trace_run_pass) simp

lemma trace_decode:
  "trace (decode_pass cfg G b s st) =
     trace st @ pass_events cfg b s 0
                  (g_is_stop G (gen (prefill_pass cfg G b s st)))
       @ [SwapTensor (inp_tokens st) (out_tokens st)]
       @ pass_events cfg b s 1
                  (g_is_stop G (gen (decode_pass cfg G b s st)))"
proof -
  have "trace (decode_pass cfg G b s st) =
      trace (swap_tokens (prefill_pass cfg G b s st))
       @ pass_events cfg b s 1
                  (g_is_stop G (gen (decode_pass cfg G b s st)))"
    unfolding decode_pass_def by (subst trace_run_pass) simp
  moreover have "inp_tokens (prefill_pass cfg G b s st) = inp_tokens st"
    "out_tokens (prefill_pass cfg G b s st) = out_tokens st"
    by (simp_all add: prefill_pass_def)
  ultimately show ?thesis
    using trace_prefill [of cfg G b s st] by (simp add: trace_swap_tokens)
qed


lemma forward_passes_Nil [simp]: "forward_passes [] = 0"
  by (simp add: forward_passes_def)

lemma forward_passes_Cons [simp]:
  "forward_passes (e # es) = (if e = Forward Generator then 1 else 0) + forward_passes es"
  by (simp add: forward_passes_def)

lemma forward_passes_append [simp]:
  "forward_passes (xs @ ys) = forward_passes xs + forward_passes ys"
  by (simp add: forward_passes_def)

lemma forward_passes_pass [simp]: "forward_passes (pass_events cfg b s k stop) = 1"
  by (simp add: pass_events_def before_forward_events_def forward_events_def forward_passes_def)

lemma forward_passes_run:
  "forward_passes (run_events cfg G b s st) = nat (run_steps cfg G b s st) + 1"
  by (simp add: run_events_def run_steps_def Let_def)

lemma run_steps_range: "0 \<le> run_steps cfg G b s st \<and> run_steps cfg G b s st \<le> 1"
  by (simp add: run_steps_def)

lemma Infer_run:
  assumes "input_shapes st 0 = b # s # rest"
  shows "\<exists>st'. Infer cfg G st = Some (Inr st') \<and>
     trace st' = trace st @ run_events cfg G b s st
       @ [Synchronize, SetOutputShape 0 [b, add32 s (run_steps cfg G b s st)]] \<and>
     get_output_shape 0 st' = [b, add32 s (run_steps cfg G b s st)]"
proof -
  let ?P0 = "prefill_pass cfg G b s st" and ?P1 = "decode_pass cfg G b s st"
  note cases = Infer_cases [OF assms, of cfg G]
  consider (A) "g_is_stop G (gen ?P0)"
    | (B) "\<not> g_is_stop G (gen ?P0)" "g_is_stop G (gen ?P1)"
    | (C) "\<not> g_is_stop G (gen ?P0)" "\<not> g_is_stop G (gen ?P1)" by blast
  then show ?thesis
  proof cases
    case A
    then have "Infer cfg G st = Some (Inr (set_output_shape 0 [b, add32 s 0] (synchronize ?P0)))"
      by (simp add: cases Let_def)
    moreover have "trace (set_output_shape 0 [b, add32 s 0] (synchronize ?P0))
        = trace st @ run_events cfg G b s st @ [Synchronize, SetOutputShape 0 [b, add32 s 0]]"
      unfolding trace_finish using trace_prefill [of cfg G b s st] A
      by (simp add: run_events_def Let_def)
    ultimately show ?thesis using A
      by (simp add: shape_finish run_steps_def)
  next
    case B
    then have "Infer cfg G st = Some (Inr (set_output_shape 0 [b, add32 s 1] (synchronize ?P1)))"
      by (simp add: cases Let_def)
    moreover have "trace (set_output_shape 0 [b, add32 s 1] (synchronize ?P1))
        = trace st @ run_events cfg G b s st @ [Synchronize, SetOutputShape 0 [b, add32 s 1]]"
      unfolding trace_finish using trace_decode [of cfg G b s st] B
      by (simp add: run_events_def Let_def)
    ultimately show ?thesis using B
      by (simp add: shape_finish run_steps_def)
  next
    case C
    then have "Infer cfg G st
        = Some (Inr (set_output_shape 0 [b, add32 s 1] (synchronize (swap_tokens ?P1))))"
      by (simp add: cases Let_def)
    moreover have "trace (set_output_shape 0 [b, add32 s 1] (synchronize (swap_tokens ?P1)))
        = trace st @ run_events cfg G b s st @ [Synchronize, SetOutputShape 0 [b, add32 s 1]]"
      unfolding trace_finish trace_swap_tokens using trace_decode [of cfg G b s st] C
      by (simp add: run_events_def Let_def decode_pass_def prefill_pass_def)
    ultimately show ?thesis using C
      by (simp add: shape_finish run_steps_def)
  qed
qed

text \<open>Without an input shape of two dimensions nothing is run.\<close>

lemma Infer_no_shape:
  "length (input_shapes st 0) < 2 \<Longrightarrow> Infer cfg G st = Some (Inl ShapeOutOfRange)"
  by (auto simp: Infer_def split: list.splits)

lemma no_stop_in_pass_prefix:
  "IsStop x \<notin> set (before_forward_events cfg b s k @ forward_events cfg)"
  by (auto simp: before_forward_events_def forward_events_def)

lemma stop_true_not_in_false_pass:
  "IsStop True \<notin> set (pass_events cfg b s k False)"
  using no_stop_in_pass_prefix [of True cfg b s k] by (simp add: pass_events_def)

lemma stop_true_split:
  assumes "ys @ pass_events cfg b s k True @ zs = pre @ IsStop True # post"
    and "IsStop True \<notin> set ys" and "IsStop True \<notin> set zs"
  shows "post = zs"
proof -
  let ?xs = "ys @ before_forward_events cfg b s k @ forward_events cfg"
  have "?xs @ IsStop True # zs = pre @ IsStop True # post"
    using assms(1) by (simp add: pass_events_def)
  moreover have "IsStop True \<notin> set ?xs"
    using no_stop_in_pass_prefix [of True cfg b s k] assms(2) by simp
  ultimately show ?thesis
    using assms(3) by (metis append_Cons_eq_iff)
qed

text \<open>After a reported stop nothing but the two closing calls follows.\<close>

lemma run_events_after_stop:
  assumes "run_events cfg G b s st @ zs = pre @ IsStop True # post" and "IsStop True \<notin> set zs"
  shows "post = zs"
proof -
  let ?sw = "SwapTensor (inp_tokens st) (out_tokens st)"
  consider (A) "g_is_stop G (gen (prefill_pass cfg G b s st))"
    | (B) "\<not> g_is_stop G (gen (prefill_pass cfg G b s st))" "g_is_stop G (gen (decode_pass cfg G b s st))"
    | (C) "\<not> g_is_stop G (gen (prefill_pass cfg G b s st))" "\<not> g_is_stop G (gen (decode_pass cfg G b s st))"
    by blast
  then show ?thesis
  proof cases
    case A
    then have "[] @ pass_events cfg b s 0 True @ zs = pre @ IsStop True # post"
      using assms(1) by (simp add: run_events_def Let_def)
    then show ?thesis by (rule stop_true_split) (simp_all add: assms(2))
  next
    case B
    then have "(pass_events cfg b s 0 False @ [?sw]) @ pass_events cfg b s 1 True @ zs
        = pre @ IsStop True # post"
      using assms(1) by (simp add: run_events_def Let_def)
    then show ?thesis
      by (rule stop_true_split) (simp_all add: assms(2) stop_true_not_in_false_pass)
  next
    case C
    then have ev: "pass_events cfg b s 0 False @ [?sw] @ pass_events cfg b s 1 False @ [?sw] @ zs
        = pre @ IsStop True # post"
      using assms(1) by (simp add: run_events_def Let_def)
    have "IsStop True \<in> set (pass_events cfg b s 0 False @ [?sw]
        @ pass_events cfg b s 1 False @ [?sw] @ zs)"
      unfolding ev by simp
    then have False
      using stop_true_not_in_false_pass [of cfg b s 0] stop_true_not_in_false_pass [of cfg b s 1]
        assms(2) by simp
    then show ?thesis ..
  qed
qed


lemma returned_Inr [simp]: "returned (Some (Inr st)) = Some st"
  by (simp add: returned_def)

lemma scenario_shape:
  "input_shapes (scenario_state [45, 90, 12] ms) 0 = 1 # 3 # []"
  by (simp add: scenario_state_def)

lemma scenario_trace: "trace (scenario_state prompt ms) = []"
  by (simp add: scenario_state_def)

subsection \<open>Termination and the number of forward passes\<close>

text \<open>
  Claim C3. One call of \<open>Infer\<close> (on an input shape of batch size and prompt length)
  returns after at most two forward passes over the layer stack, whatever the generator
  reports and whatever the prompt length and \<open>max_step\<close> are; and the iteration in which
  the step counter is 1 is always the last one: the loop returns after that single pass
  with the counter still 1.
\<close>

theorem infer_at_most_two_passes:
  assumes "input_shapes st 0 = b # s # rest"
  shows
    "(\<exists>st' ev. Infer cfg G st = Some (Inr st') \<and> trace st' = trace st @ ev \<and>
         forward_passes ev \<le> 2) \<and>
     (\<exists>st' ev. infer_loop cfg G b s 1 st = Some (st', 1) \<and> trace st' = trace st @ ev \<and>
         forward_passes ev = 1)"
proof
  let ?ev = "run_events cfg G b s st
       @ [Synchronize, SetOutputShape 0 [b, add32 s (run_steps cfg G b s st)]]"
  obtain st' where "Infer cfg G st = Some (Inr st')" and "trace st' = trace st @ ?ev"
    using Infer_run [OF assms, of cfg G] by blast
  moreover have "forward_passes ?ev \<le> 2"
    using run_steps_range [of cfg G b s st] by (simp add: forward_passes_run) arith
  ultimately show "\<exists>st' ev. Infer cfg G st = Some (Inr st') \<and> trace st' = trace st @ ev \<and>
      forward_passes ev \<le> 2"
    by blast
next
  let ?P = "run_pass cfg G b s 1 st"
  let ?stop = "g_is_stop G (gen ?P)"
  show "\<exists>st' ev. infer_loop cfg G b s 1 st = Some (st', 1) \<and> trace st' = trace st @ ev \<and>
      forward_passes ev = 1"
  proof (cases ?stop)
    case True
    then have "infer_loop cfg G b s 1 st = Some (?P, 1)"
      by (simp add: infer_loop_last Let_def)
    moreover have "trace ?P = trace st @ pass_events cfg b s 1 ?stop"
      by (rule trace_run_pass)
    ultimately show ?thesis
      using forward_passes_pass by blast
  next
    case False
    then have "infer_loop cfg G b s 1 st = Some (swap_tokens ?P, 1)"
      by (simp add: infer_loop_last Let_def)
    moreover have "trace (swap_tokens ?P)
        = trace st @ (pass_events cfg b s 1 ?stop @ [SwapTensor (inp_tokens st) (out_tokens st)])"
      using trace_run_pass [of cfg G b s 1 st] by (simp add: trace_swap_tokens)
    moreover have "forward_passes
        (pass_events cfg b s 1 ?stop @ [SwapTensor (inp_tokens st) (out_tokens st)]) = 1"
      by simp
    ultimately show ?thesis by blast
  qed
qed

theorem infer_at_most_two_passes_witness:
  "input_shapes (scenario_state [45, 90, 12] 8) 0 = 1 # 3 # [] \<and>
   forward_passes (calls_of (scenario_run always_emits never_stops 8)) \<le> 2"
proof -
  let ?st = "scenario_state [45, 90, 12] 8"
  obtain st' ev where "Infer (scenario_config 8) (stub 99 always_emits never_stops) ?st = Some (Inr st')"
    and "trace st' = trace ?st @ ev" and "forward_passes ev \<le> 2"
    using infer_at_most_two_passes [OF scenario_shape [of 8], where cfg = "scenario_config 8"
        and G = "stub 99 always_emits never_stops"]
    by blast
  then have "forward_passes (calls_of (scenario_run always_emits never_stops 8)) \<le> 2"
    by (simp add: calls_of_def scenario_run_def scenario_trace)
  then show ?thesis
    using scenario_shape by blast
qed

text \<open>
  Claim C4, as amended. For every batch size, prompt length \<open>L\<close> and generator, \<open>Infer\<close>
  returns, and it takes at most one decode transition; this is at most \<open>max_step - L\<close>
  whenever \<open>L < max_step\<close>.
\<close>

theorem infer_terminates_bounded:
  assumes "input_shapes st 0 = b # L # rest"
  shows "\<exists>st' ev. Infer cfg G st = Some (Inr st') \<and> trace st' = trace st @ ev \<and>
     decode_transitions ev \<le> 1 \<and>
     (L < max_step cfg \<longrightarrow> int (decode_transitions ev) \<le> max_step cfg - L)"
proof -
  let ?ev = "run_events cfg G b L st
       @ [Synchronize, SetOutputShape 0 [b, add32 L (run_steps cfg G b L st)]]"
  obtain st' where "Infer cfg G st = Some (Inr st')" and "trace st' = trace st @ ?ev"
    using Infer_run [OF assms, of cfg G] by blast
  moreover have "decode_transitions ?ev \<le> 1"
    using run_steps_range [of cfg G b L st]
    by (simp add: decode_transitions_def forward_passes_run) arith
  ultimately show ?thesis
    by (intro exI [of _ st'] exI [of _ ?ev]) auto
qed

theorem infer_terminates_bounded_witness:
  "input_shapes (scenario_state [45, 90, 12] 8) 0 = 1 # 3 # [] \<and>
   (3::int) < max_step (scenario_config 8) \<and>
   int (decode_transitions (calls_of (scenario_run always_emits never_stops 8)))
     \<le> max_step (scenario_config 8) - 3"
proof -
  let ?st = "scenario_state [45, 90, 12] 8"
  have less: "(3::int) < max_step (scenario_config 8)"
    by (simp add: scenario_config_def)
  obtain st' ev where run: "Infer (scenario_config 8) (stub 99 always_emits never_stops) ?st
        = Some (Inr st')"
    and tr: "trace st' = trace ?st @ ev"
    and bound: "3 < max_step (scenario_config 8) \<longrightarrow>
        int (decode_transitions ev) \<le> max_step (scenario_config 8) - 3"
    using infer_terminates_bounded [OF scenario_shape [of 8], where cfg = "scenario_config 8"
        and G = "stub 99 always_emits never_stops"]
    by blast
  have "calls_of (scenario_run always_emits never_stops 8) = ev"
    using run tr by (simp add: calls_of_def scenario_run_def scenario_trace)
  then show ?thesis
    using bound less scenario_shape by blast
qed

theorem decode_bound_counterexample:
  "decode_transitions (calls_of (scenario_run always_emits never_stops 3)) = 1 \<and>
   \<not> int (decode_transitions (calls_of (scenario_run always_emits never_stops 3)))
       \<le> max_step (scenario_config 3) - 3"
  by code_simp

text \<open>
  Claim C2, as amended. If the decoding strategy never signals stop, the loop halts after
  exactly two forward passes, with the step counter at 1, whatever \<open>max_step\<close> is, and
  the published output shape is (batch, prompt length + 1), the sum being in the range of
  \<^verbatim>\<open>int\<close>. The run ends as every other run does, with the swap, the synchronize and the
  publication of the shape: the cap is a normal stop, not an error.
\<close>

theorem never_stop_halts_after_two_passes:
  assumes "\<forall>g. \<not> g_is_stop G g" and "input_shapes st 0 = b # s # rest"
    and "in_int32 (s + 1)"
  shows "\<exists>st' ev. Infer cfg G st = Some (Inr st') \<and>
     trace st' = trace st @ ev
       @ [SwapTensor (inp_tokens st) (out_tokens st), Synchronize,
          SetOutputShape 0 [b, s + 1]] \<and>
     forward_passes ev = 2 \<and>
     get_output_shape 0 st' = [b, s + 1]"
proof -
  let ?sw = "SwapTensor (inp_tokens st) (out_tokens st)"
  let ?ev = "pass_events cfg b s 0 False @ [?sw] @ pass_events cfg b s 1 False"
  have steps: "run_steps cfg G b s st = 1"
    using assms(1) by (simp add: run_steps_def)
  have sum: "add32 s 1 = s + 1"
    using assms(3) by (rule add32_id)
  have events: "run_events cfg G b s st = ?ev @ [?sw]"
    using assms(1) by (simp add: run_events_def Let_def)
  obtain st' where "Infer cfg G st = Some (Inr st')"
    and "trace st' = trace st @ run_events cfg G b s st
       @ [Synchronize, SetOutputShape 0 [b, add32 s (run_steps cfg G b s st)]]"
    and "get_output_shape 0 st' = [b, add32 s (run_steps cfg G b s st)]"
    using Infer_run [OF assms(2), of cfg G] by blast
  then have "Infer cfg G st = Some (Inr st') \<and>
     trace st' = trace st @ ?ev @ [?sw, Synchronize, SetOutputShape 0 [b, s + 1]] \<and>
     forward_passes ?ev = 2 \<and> get_output_shape 0 st' = [b, s + 1]"
    by (simp add: steps events sum)
  then show ?thesis by blast
qed

theorem never_stop_halts_after_two_passes_witness:
  "(\<forall>g. \<not> g_is_stop (stub 99 always_emits never_stops) g) \<and>
   input_shapes (scenario_state [45, 90, 12] 8) 0 = 1 # 3 # [] \<and>
   in_int32 (3 + 1) \<and>
   published_shape (scenario_run always_emits never_stops 8) = Some [1, 4]"
proof -
  let ?G = "stub 99 always_emits never_stops"
  let ?st = "scenario_state [45, 90, 12] 8"
  have h: "\<forall>g. \<not> g_is_stop ?G g"
    by (simp add: stub_def never_stops_def)
  have r: "in_int32 (3 + 1)"
    by (simp add: in_int32_def)
  obtain st' where "Infer (scenario_config 8) ?G ?st = Some (Inr st')"
    and "get_output_shape 0 st' = [1, 3 + 1]"
    using never_stop_halts_after_two_passes [OF h scenario_shape [of 8] r,
        where cfg = "scenario_config 8"]
    by blast
  then have "published_shape (scenario_run always_emits never_stops 8) = Some [1, 4]"
    by (simp add: published_shape_def scenario_run_def)
  with h r scenario_shape show ?thesis by blast
qed

theorem never_stop_cap_counterexample:
  "published_shape (scenario_run always_emits never_stops 8) = Some [1, 3 + 1] \<and>
   decode_transitions (calls_of (scenario_run always_emits never_stops 8)) = 1 \<and>
   published_shape (scenario_run always_emits never_stops 8)
     \<noteq> Some [1, max_step (scenario_config 8)] \<and>
   int (decode_transitions (calls_of (scenario_run always_emits never_stops 8)))
     \<noteq> max_step (scenario_config 8) - 3"
  by code_simp

subsection \<open>Stopping\<close>

text \<open>
  Claim C5. On an input shape of batch size and prompt length \<open>Infer\<close> returns, and once
  the decoding strategy has reported stop (the call \<open>is_stop\<close> returned true) the run
  issues no further forward pass: the only calls that follow are the synchronize and the
  publication of the output shape, with which \<open>Infer\<close> returns. A stop reported after the
  first or after the second pass is in the calls of the run, so it does end the run.
\<close>

theorem stop_ends_run:
  assumes "input_shapes st 0 = b # s # rest"
  shows "\<exists>st'. Infer cfg G st = Some (Inr st') \<and>
     (\<forall>pre post. trace st' = trace st @ pre @ IsStop True # post \<longrightarrow>
        post = [Synchronize, SetOutputShape 0 (get_output_shape 0 st')] \<and>
        forward_passes post = 0) \<and>
     (g_is_stop G (gen (prefill_pass cfg G b s st)) \<or>
      g_is_stop G (gen (decode_pass cfg G b s st)) \<longrightarrow>
        (\<exists>pre. trace st' = trace st @ pre
           @ [IsStop True, Synchronize, SetOutputShape 0 (get_output_shape 0 st')]))"
proof -
  let ?sh = "[b, add32 s (run_steps cfg G b s st)]"
  let ?fin = "[Synchronize, SetOutputShape 0 ?sh]"
  obtain st' where run: "Infer cfg G st = Some (Inr st')"
    and tr: "trace st' = trace st @ run_events cfg G b s st @ ?fin"
    and sh: "get_output_shape 0 st' = ?sh"
    using Infer_run [OF assms, of cfg G] by blast
  have after: "post = [Synchronize, SetOutputShape 0 (get_output_shape 0 st')] \<and>
      forward_passes post = 0"
    if split: "trace st' = trace st @ pre @ IsStop True # post" for pre post
  proof -
    have "run_events cfg G b s st @ ?fin = pre @ IsStop True # post"
      using tr split by simp
    then have "post = ?fin"
      by (rule run_events_after_stop) simp
    then show ?thesis
      by (simp add: sh)
  qed
  have reached: "\<exists>pre. trace st' = trace st @ pre
        @ [IsStop True, Synchronize, SetOutputShape 0 (get_output_shape 0 st')]"
    if stop: "g_is_stop G (gen (prefill_pass cfg G b s st)) \<or>
        g_is_stop G (gen (decode_pass cfg G b s st))"
  proof -
    have "\<exists>pre. run_events cfg G b s st = pre @ [IsStop True]"
      using stop by (auto simp: run_events_def pass_events_def Let_def)
    then obtain pre where "run_events cfg G b s st = pre @ [IsStop True]" ..
    then have "trace st' = trace st @ pre
        @ [IsStop True, Synchronize, SetOutputShape 0 (get_output_shape 0 st')]"
      using tr by (simp add: sh)
    then show ?thesis ..
  qed
  from run after reached show ?thesis by blast
qed

theorem stop_ends_run_witness:
  "input_shapes (scenario_state [45, 90, 12] 8) 0 = 1 # 3 # [] \<and>
   g_is_stop (stub 99 (emits_first 2) (stops_from 2))
     (gen (decode_pass (scenario_config 8) (stub 99 (emits_first 2) (stops_from 2)) 1 3
            (scenario_state [45, 90, 12] 8))) \<and>
   (\<exists>st'. scenario_run (emits_first 2) (stops_from 2) 8 = Some (Inr st') \<and>
      trace st' = trace (scenario_state [45, 90, 12] 8)
        @ [BeforeForward LaunchGptEmb [1, 3, 0], BeforeForward (GptLayer 0) [1, 3, 0],
           BeforeForward LyrNormalize [1, 3], BeforeForward Linear [1, 3],
           BeforeForward Generator [1, 3, 0],
           Forward LaunchGptEmb, Forward (GptLayer 0), Forward LyrNormalize,
           Forward Linear, Forward Generator, IsStop False, SwapTensor 0 1,
           BeforeForward LaunchGptEmb [1, 1, 3], BeforeForward (GptLayer 0) [1, 1, 4],
           BeforeForward LyrNormalize [1, 1], BeforeForward Linear [1, 1],
           BeforeForward Generator [1, 1, 3],
           Forward LaunchGptEmb, Forward (GptLayer 0), Forward LyrNormalize,
           Forward Linear, Forward Generator]
        @ IsStop True # [Synchronize, SetOutputShape 0 [1, 4]] \<and>
      [Synchronize, SetOutputShape 0 [1, 4]]
        = [Synchronize, SetOutputShape 0 (get_output_shape 0 st')] \<and>
      (\<exists>pre. trace st' = trace (scenario_state [45, 90, 12] 8) @ pre
         @ [IsStop True, Synchronize, SetOutputShape 0 (get_output_shape 0 st')]))"
proof -
  let ?G = "stub 99 (emits_first 2) (stops_from 2)"
  let ?st = "scenario_state [45, 90, 12] 8"
  let ?pre = "[BeforeForward LaunchGptEmb [1, 3, 0], BeforeForward (GptLayer 0) [1, 3, 0],
           BeforeForward LyrNormalize [1, 3], BeforeForward Linear [1, 3],
           BeforeForward Generator [1, 3, 0],
           Forward LaunchGptEmb, Forward (GptLayer 0), Forward LyrNormalize,
           Forward Linear, Forward Generator, IsStop False, SwapTensor 0 1,
           BeforeForward LaunchGptEmb [1, 1, 3], BeforeForward (GptLayer 0) [1, 1, 4],
           BeforeForward LyrNormalize [1, 1], BeforeForward Linear [1, 1],
           BeforeForward Generator [1, 1, 3],
           Forward LaunchGptEmb, Forward (GptLayer 0), Forward LyrNormalize,
           Forward Linear, Forward Generator]"
  let ?post = "[Synchronize, SetOutputShape 0 [1, 4]]"
  have stop: "g_is_stop ?G (gen (decode_pass (scenario_config 8) ?G 1 3 ?st))"
    by code_simp
  obtain st' where run: "Infer (scenario_config 8) ?G ?st = Some (Inr st')"
    and after: "\<And>pre post. trace st' = trace ?st @ pre @ IsStop True # post \<Longrightarrow>
        post = [Synchronize, SetOutputShape 0 (get_output_shape 0 st')]"
    and reached: "g_is_stop ?G (gen (prefill_pass (scenario_config 8) ?G 1 3 ?st)) \<or>
        g_is_stop ?G (gen (decode_pass (scenario_config 8) ?G 1 3 ?st)) \<Longrightarrow>
        \<exists>pre. trace st' = trace ?st @ pre
           @ [IsStop True, Synchronize, SetOutputShape 0 (get_output_shape 0 st')]"
    using stop_ends_run [OF scenario_shape [of 8], where cfg = "scenario_config 8" and G = ?G]
    by blast
  have "calls_of (scenario_run (emits_first 2) (stops_from 2) 8) = ?pre @ IsStop True # ?post"
    by code_simp
  then have tr: "trace st' = trace ?st @ ?pre @ IsStop True # ?post"
    using run by (simp add: calls_of_def scenario_run_def scenario_trace)
  have "?post = [Synchronize, SetOutputShape 0 (get_output_shape 0 st')]"
    using tr by (rule after)
  moreover have "\<exists>pre. trace st' = trace ?st @ pre
      @ [IsStop True, Synchronize, SetOutputShape 0 (get_output_shape 0 st')]"
    using stop by (intro reached) blast
  ultimately show ?thesis
    using run tr stop scenario_shape unfolding scenario_run_def by blast
qed

subsection \<open>The end of a run\<close>

text \<open>
  Claim C7. When the loop has stopped, \<open>Infer\<close> issues the Context synchronize and then
  publishes the output shape of slot 0 as (batch, prompt length + steps taken): these are
  the last two calls of the run, in this order, and there is no other synchronize. The
  steps taken are the decode transitions, the forward passes after the first. The prompt
  length and its successor are in the range of \<^verbatim>\<open>int\<close>.
\<close>

theorem infer_synchronizes_then_publishes:
  assumes "input_shapes st 0 = b # s # rest" and "in_int32 s" and "in_int32 (s + 1)"
  shows "\<exists>st' ev. Infer cfg G st = Some (Inr st') \<and>
     trace st' = trace st @ ev
       @ [Synchronize, SetOutputShape 0 [b, s + int (decode_transitions ev)]] \<and>
     get_output_shape 0 st' = [b, s + int (decode_transitions ev)] \<and>
     Synchronize \<notin> set ev"
proof -
  let ?ev = "run_events cfg G b s st"
  have steps: "int (decode_transitions ?ev) = run_steps cfg G b s st"
    using run_steps_range [of cfg G b s st] by (simp add: decode_transitions_def forward_passes_run)
  have "add32 s (run_steps cfg G b s st) = s + run_steps cfg G b s st"
    using assms(2,3) by (intro add32_id) (simp add: run_steps_def)
  then have sum: "add32 s (run_steps cfg G b s st) = s + int (decode_transitions ?ev)"
    by (simp add: steps)
  have "Synchronize \<notin> set ?ev"
    by (auto simp: run_events_def pass_events_def before_forward_events_def forward_events_def
        Let_def)
  then show ?thesis
    using Infer_run [OF assms(1), of cfg G] by (auto simp: sum)
qed

theorem infer_synchronizes_then_publishes_witness:
  "input_shapes (scenario_state [45, 90, 12] 8) 0 = 1 # 3 # [] \<and>
   in_int32 3 \<and> in_int32 (3 + 1) \<and>
   (\<exists>ev. calls_of (scenario_run (emits_first 2) (stops_from 3) 8)
           = ev @ [Synchronize, SetOutputShape 0 [1, 3 + int (decode_transitions ev)]] \<and>
         published_shape (scenario_run (emits_first 2) (stops_from 3) 8)
           = Some [1, 3 + int (decode_transitions ev)])"
proof -
  let ?st = "scenario_state [45, 90, 12] 8"
  let ?G = "stub 99 (emits_first 2) (stops_from 3)"
  have r3: "in_int32 3" and r4: "in_int32 (3 + 1)"
    by (simp_all add: in_int32_def)
  obtain st' ev where run: "Infer (scenario_config 8) ?G ?st = Some (Inr st')"
    and tr: "trace st' = trace ?st @ ev
       @ [Synchronize, SetOutputShape 0 [1, 3 + int (decode_transitions ev)]]"
    and sh: "get_output_shape 0 st' = [1, 3 + int (decode_transitions ev)]"
    using infer_synchronizes_then_publishes [OF scenario_shape [of 8] r3 r4,
        where cfg = "scenario_config 8" and G = ?G]
    by blast
  have "calls_of (scenario_run (emits_first 2) (stops_from 3) 8)
      = ev @ [Synchronize, SetOutputShape 0 [1, 3 + int (decode_transitions ev)]]"
    using run tr by (simp add: calls_of_def scenario_run_def scenario_trace)
  moreover have "published_shape (scenario_run (emits_first 2) (stops_from 3) 8)
      = Some [1, 3 + int (decode_transitions ev)]"
    using run sh by (simp add: published_shape_def scenario_run_def)
  ultimately show ?thesis
    using scenario_shape r3 r4 by blast
qed

subsection \<open>The end-to-end scenario\<close>

text \<open>
  Claim C1, as amended. Batch size 1, prompt \<open>[45, 90, 12]\<close>, \<open>max_step\<close> 8, beam width 1,
  and a decoding strategy that emits token 99 twice and then signals stop: \<open>Infer\<close>
  publishes the output shape (1, 4). The two emitted tokens are in the buffer that the
  last swap leaves with the input-token Variable, which begins \<open>[45, 90, 12, 99, 99]\<close>;
  the buffer of the output-token Variable begins \<open>[45, 90, 12, 99]\<close>. When the strategy
  reports stop together with its second token, the shape is (1, 4) as well, and the
  buffer of the output-token Variable begins \<open>[45, 90, 12, 99, 99]\<close>.
\<close>

theorem infer_scenario_capped:
  "published_shape (scenario_run (emits_first 2) (stops_from 3) 8) = Some [1, 4] \<and>
   final_inp_tokens 5 (scenario_run (emits_first 2) (stops_from 3) 8) = Some [45, 90, 12, 99, 99] \<and>
   final_out_tokens 4 (scenario_run (emits_first 2) (stops_from 3) 8) = Some [45, 90, 12, 99] \<and>
   published_shape (scenario_run (emits_first 2) (stops_from 2) 8) = Some [1, 4] \<and>
   final_out_tokens 5 (scenario_run (emits_first 2) (stops_from 2) 8) = Some [45, 90, 12, 99, 99]"
  by code_simp

theorem infer_scenario_counterexample:
  "published_shape (scenario_run (emits_first 2) (stops_from 3) 8) = Some [1, 4] \<and>
   \<not> (published_shape (scenario_run (emits_first 2) (stops_from 3) 8) = Some [1, 5] \<and>
      final_out_tokens 5 (scenario_run (emits_first 2) (stops_from 3) 8)
        = Some [45, 90, 12, 99, 99])"
  by code_simp

subsection \<open>The decode transition\<close>

text \<open>
  Claim C6, as amended. After a pass that does not stop, at a step counter other than 1,
  the loop goes on with the counter incremented, from the state after the swap. The swap
  exchanges the buffers of the input-token and output-token Variables and copies no
  data. The next iteration calls \<open>before_forward\<close> on every layer and then \<open>forward\<close> on
  every layer, in the order of the network; with \<open>k\<close> the incremented counter, the
  arguments are (batch * beam, 1, prompt length + k - 1) for the embedding layer,
  (batch * beam, 1, prompt length + k) for every transformer layer, (batch * beam, 1) for
  the normalisation and the projection layer, and (batch, 1, prompt length + k - 1) for
  the generator. The counter, the product and the sums are in the range of \<^verbatim>\<open>int\<close>.
\<close>

theorem decode_transition_calls:
  assumes "\<not> g_is_stop G (gen (run_pass cfg G b s steps st))" and "steps \<noteq> 1" and "0 \<le> steps"
    and "in_int32 (steps + 1)" and "in_int32 (b * beam_size cfg)"
    and "in_int32 (s + (steps + 1))" and "in_int32 (s + (steps + 1) - 1)"
  shows
    "(let st1 = run_pass cfg G b s steps st; st2 = swap_tokens st1; k = steps + 1;
          st3 = run_pass cfg G b s k st2
      in infer_loop cfg G b s steps st = infer_loop cfg G b s k st2 \<and>
         buffer (vars st2 (inp_tokens st2)) = buffer (vars st1 (out_tokens st1)) \<and>
         buffer (vars st2 (out_tokens st2)) = buffer (vars st1 (inp_tokens st1)) \<and>
         mem st2 = mem st1 \<and>
         trace st3 = trace st1
           @ [SwapTensor (inp_tokens st1) (out_tokens st1)]
           @ [BeforeForward LaunchGptEmb [b * beam_size cfg, 1, s + k - 1]]
           @ map (\<lambda>i. BeforeForward (GptLayer i) [b * beam_size cfg, 1, s + k])
               [0..<n_enc_layer cfg]
           @ [BeforeForward LyrNormalize [b * beam_size cfg, 1],
              BeforeForward Linear [b * beam_size cfg, 1],
              BeforeForward Generator [b, 1, s + k - 1]]
           @ [Forward LaunchGptEmb]
           @ map (\<lambda>i. Forward (GptLayer i)) [0..<n_enc_layer cfg]
           @ [Forward LyrNormalize, Forward Linear, Forward Generator]
           @ [IsStop (g_is_stop G (gen st3))])"
proof -
  let ?st1 = "run_pass cfg G b s steps st"
  let ?st2 = "swap_tokens ?st1"
  let ?st3 = "run_pass cfg G b s (steps + 1) ?st2"
  have inc: "add32 steps 1 = steps + 1"
    using assms(4) by (rule add32_id)
  have prod: "mul32 b (beam_size cfg) = b * beam_size cfg"
    using assms(5) by (rule mul32_id)
  have sum: "add32 s (steps + 1) = s + (steps + 1)"
    using assms(6) by (rule add32_id)
  have pred: "sub32 (s + (steps + 1)) 1 = s + (steps + 1) - 1"
    using assms(7) by (rule sub32_id)
  have loop: "infer_loop cfg G b s steps st = infer_loop cfg G b s (steps + 1) ?st2"
    using assms(1,2) by (subst infer_loop.simps) (simp add: Let_def inc)
  have bi: "buffer (vars ?st2 (inp_tokens ?st2)) = buffer (vars ?st1 (out_tokens ?st1))"
    by (simp add: swap_tokens_def emit_def swap_tensor_def Let_def)
  have bo: "buffer (vars ?st2 (out_tokens ?st2)) = buffer (vars ?st1 (inp_tokens ?st1))"
    by (simp add: swap_tokens_def emit_def swap_tensor_def Let_def)
  have m: "mem ?st2 = mem ?st1"
    by simp
  have k: "steps + 1 \<noteq> 0"
    using assms(3) by simp
  have tr: "trace ?st3 = trace ?st1 @ [SwapTensor (inp_tokens ?st1) (out_tokens ?st1)]
      @ pass_events cfg b s (steps + 1) (g_is_stop G (gen ?st3))"
    by (subst trace_run_pass) (simp add: trace_swap_tokens)
  have ev: "before_forward_events cfg b s (steps + 1) =
      [BeforeForward LaunchGptEmb [b * beam_size cfg, 1, s + (steps + 1) - 1]]
      @ map (\<lambda>i. BeforeForward (GptLayer i) [b * beam_size cfg, 1, s + (steps + 1)])
          [0..<n_enc_layer cfg]
      @ [BeforeForward LyrNormalize [b * beam_size cfg, 1],
         BeforeForward Linear [b * beam_size cfg, 1],
         BeforeForward Generator [b, 1, s + (steps + 1) - 1]]"
    using k by (simp only: before_forward_events_def prod sum pred if_False)
  show ?thesis
    unfolding Let_def
    using loop bi bo m tr
    by (simp add: pass_events_def ev forward_events_def)
qed

theorem decode_transition_calls_witness:
  "\<not> g_is_stop (stub 99 always_emits never_stops)
       (gen (run_pass (scenario_config 8) (stub 99 always_emits never_stops) 1 3 0
              (loop_entry (scenario_config 8) 1 3 (scenario_state [45, 90, 12] 8)))) \<and>
   (0::int) \<noteq> 1 \<and> (0::int) \<le> 0 \<and>
   in_int32 (0 + 1) \<and> in_int32 (1 * beam_size (scenario_config 8)) \<and>
   in_int32 (3 + (0 + 1)) \<and> in_int32 (3 + (0 + 1) - 1) \<and>
   infer_loop (scenario_config 8) (stub 99 always_emits never_stops) 1 3 0
       (loop_entry (scenario_config 8) 1 3 (scenario_state [45, 90, 12] 8))
     = infer_loop (scenario_config 8) (stub 99 always_emits never_stops) 1 3 (0 + 1)
         (swap_tokens (run_pass (scenario_config 8) (stub 99 always_emits never_stops) 1 3 0
              (loop_entry (scenario_config 8) 1 3 (scenario_state [45, 90, 12] 8))))"
proof -
  let ?G = "stub 99 always_emits never_stops"
  let ?st = "loop_entry (scenario_config 8) 1 3 (scenario_state [45, 90, 12] 8)"
  have h1: "\<not> g_is_stop ?G (gen (run_pass (scenario_config 8) ?G 1 3 0 ?st))"
    by (simp add: stub_def never_stops_def)
  have h2: "(0::int) \<noteq> 1" by simp
  have h3: "(0::int) \<le> 0" by simp
  have h4: "in_int32 (0 + 1)" by (simp add: in_int32_def)
  have h5: "in_int32 (1 * beam_size (scenario_config 8))"
    by (simp add: in_int32_def scenario_config_def)
  have h6: "in_int32 (3 + (0 + 1))" by (simp add: in_int32_def)
  have h7: "in_int32 (3 + (0 + 1) - 1)" by (simp add: in_int32_def)
  have "infer_loop (scenario_config 8) ?G 1 3 0 ?st
      = infer_loop (scenario_config 8) ?G 1 3 (0 + 1)
          (swap_tokens (run_pass (scenario_config 8) ?G 1 3 0 ?st))"
    using decode_transition_calls [OF h1 h2 h3 h4 h5 h6 h7] unfolding Let_def by (rule conjunct1)
  with h1 h2 h3 h4 h5 h6 h7 show ?thesis by blast
qed

theorem before_forward_params_counterexample:
  "BeforeForward Generator [1, 1, 3 + 1]
       \<notin> set (calls_of (scenario_run always_emits never_stops 8)) \<and>
   BeforeForward LaunchGptEmb [1, 1, 3 + 1]
       \<notin> set (calls_of (scenario_run always_emits never_stops 8)) \<and>
   BeforeForward Generator [1, 1, 3] \<in> set (calls_of (scenario_run always_emits never_stops 8)) \<and>
   BeforeForward LaunchGptEmb [1, 1, 3]
       \<in> set (calls_of (scenario_run always_emits never_stops 8))"
  by code_simp

end
